theory Spec2Isabelle
  imports Main
begin

section \<open>Strings as JavaScript builds them\<close>

text \<open>
  Strings are \<open>char list\<close>. The line feed, the backslash and the double quote cannot
  be written inside a string literal, nor can a single quote next to the closing
  quotes; they get names.
\<close>

abbreviation nl :: string where "nl \<equiv> [CHR 0x0A]"
abbreviation bs :: string where "bs \<equiv> [CHR 0x5C]"
abbreviation dq :: string where "dq \<equiv> [CHR 0x22]"
abbreviation sq :: string where "sq \<equiv> [CHR 0x27]"

text \<open>\<^verbatim>\<open>Array.prototype.join\<close>.\<close>

fun join :: "string \<Rightarrow> string list \<Rightarrow> string" where
  "join sep [] = []"
| "join sep [x] = x"
| "join sep (x # y # ys) = x @ sep @ join sep (y # ys)"

text \<open>
  \<^verbatim>\<open>String.prototype.split\<close> with a one-character separator: the empty string
  splits into one empty field.
\<close>

fun split_on :: "char \<Rightarrow> string \<Rightarrow> string list" where
  "split_on c [] = [[]]"
| "split_on c (x # xs) =
     (if x = c then [] # split_on c xs
      else (case split_on c xs of [] \<Rightarrow> [[x]] | p # ps \<Rightarrow> (x # p) # ps))"

text \<open>
  \<^verbatim>\<open>String.prototype.replace\<close> with a string pattern, or with a regular expression
  that has no \<^verbatim>\<open>g\<close> flag: only the first match is replaced. The pattern matches one
  character here, given as a predicate.
\<close>

fun replace_first :: "(char \<Rightarrow> bool) \<Rightarrow> string \<Rightarrow> string \<Rightarrow> string" where
  "replace_first P r [] = []"
| "replace_first P r (x # xs) = (if P x then r @ xs else x # replace_first P r xs)"

text \<open>The character class \<^verbatim>\<open>[a-zA-Z0-9]\<close>, on ASCII text.\<close>

definition is_alnum :: "char \<Rightarrow> bool" where
  "is_alnum c =
     (let n = (of_char c :: nat)
      in (97 \<le> n \<and> n \<le> 122) \<or> (65 \<le> n \<and> n \<le> 90) \<or> (48 \<le> n \<and> n \<le> 57))"

text \<open>
  An optional string in a condition (\<^verbatim>\<open>if (cmd)\<close>): \<^verbatim>\<open>undefined\<close> and the empty
  string are falsy. Inside a template literal (\<^verbatim>\<open>${x}\<close>) \<^verbatim>\<open>undefined\<close> prints as
  the nine letters \<^verbatim>\<open>undefined\<close>.
\<close>

definition truthy :: "string option \<Rightarrow> bool" where
  "truthy x = (case x of None \<Rightarrow> False | Some s \<Rightarrow> s \<noteq> [])"

definition text_of :: "string option \<Rightarrow> string" where
  "text_of x = (case x of None \<Rightarrow> ''undefined'' | Some s \<Rightarrow> s)"

section \<open>Data model\<close>

text \<open>
  The schema types of \<^verbatim>\<open>@stencila/schema\<close> as the generators read them. Every
  attribute the code tests for presence is an option: \<open>None\<close> is JavaScript's
  \<^verbatim>\<open>undefined\<close>.
\<close>

datatype SoftwarePackage =
  SoftwarePackage
    (name: "string option")
    (runtimePlatform: "string option")
    (softwareRequirements: "SoftwarePackage list option")

record SoftwareEnvironment =
  environ_name :: "string option"
  datePublished :: "string option"
  environ_softwareRequirements :: "SoftwarePackage list option"

text \<open>
  \<^verbatim>\<open>x || ''\<close> on an optional string: both \<^verbatim>\<open>undefined\<close> and the empty string are
  falsy, and both give the empty string.
\<close>

fun or_else :: "string option \<Rightarrow> string \<Rightarrow> string" where
  "or_else None d = d"
| "or_else (Some s) d = (if s = [] then d else s)"

section \<open>The R generator: system packages\<close>

text \<open>
  \<^verbatim>\<open>RGenerator.aptPackages\<close>. The inner function \<^verbatim>\<open>find\<close> pushes onto the
  array \<^verbatim>\<open>debpkgs\<close> of the enclosing call; here the array is passed in and
  returned. The guard returns at once when the requirements are missing or the platform
  is not \<^verbatim>\<open>R\<close> (an empty array of requirements is truthy and is looped over). The
  \<^verbatim>\<open>for ... of\<close> loops are \<open>fold\<close>s over the children in order.
\<close>

fun find_pkg :: "SoftwarePackage \<Rightarrow> string list \<Rightarrow> string list" where
  "find_pkg (SoftwarePackage n rp None) debpkgs = debpkgs"
| "find_pkg (SoftwarePackage n rp (Some reqs)) debpkgs =
     (if rp = Some ''R'' then
        fold (\<lambda>subpkg debpkgs.
                if runtimePlatform subpkg = Some ''deb''
                then debpkgs @ [or_else (name subpkg) '''']
                else find_pkg subpkg debpkgs)
             reqs debpkgs
      else debpkgs)"

definition RGenerator_aptPackages :: "SoftwareEnvironment \<Rightarrow> string list" where
  "RGenerator_aptPackages environ =
     (let debpkgs = fold find_pkg
            (case environ_softwareRequirements environ of None \<Rightarrow> [] | Some reqs \<Rightarrow> reqs) []
      in debpkgs @ [''r-base''])"

section \<open>The collaborators: the project folder and the clock\<close>

text \<open>
  Modelled from the spec: the class \<^verbatim>\<open>Doer\<close>, which every generator extends, is not
  among the sources. The spec gives its primitives: \<^verbatim>\<open>exists(relativePath)\<close>,
  \<^verbatim>\<open>glob(pattern)\<close> answering an ordered sequence of relative paths, and
  \<^verbatim>\<open>write(path, content)\<close>, all scoped to the project folder. The folder is a map
  from paths to contents together with the listing the collaborator answers for each
  pattern; \<^verbatim>\<open>write\<close> stores a file whole (last write wins) and leaves the
  listings as they are: the two files the generators write, \<^verbatim>\<open>.DESCRIPTION\<close> and
  \<^verbatim>\<open>.Dockerfile\<close>, are not \<^verbatim>\<open>*.R\<close> files, the only pattern they list.
\<close>

record Doer =
  files :: "string \<rightharpoonup> string"
  listing :: "string \<Rightarrow> string list"

definition Doer_exists :: "Doer \<Rightarrow> string \<Rightarrow> bool" where
  "Doer_exists doer subpath = (files doer subpath \<noteq> None)"

definition Doer_glob :: "Doer \<Rightarrow> string \<Rightarrow> string list" where
  "Doer_glob doer pattern = listing doer pattern"

definition Doer_write :: "Doer \<Rightarrow> string \<Rightarrow> string \<Rightarrow> Doer" where
  "Doer_write doer subpath content = doer\<lparr>files := (files doer)(subpath \<mapsto> content)\<rparr>"

text \<open>
  The clock is read through \<^verbatim>\<open>new Date().toISOString()\<close> and through
  \<^verbatim>\<open>(new Date(Date.now() - 24 * 3600 * 1000)).toISOString()\<close>; a reading of the
  clock is the pair of texts the two expressions give at that moment.
\<close>

record Clock =
  now_iso :: string
  yesterday_iso :: string

section \<open>The generator and its overridable methods\<close>

text \<open>
  A generator object is the table of the methods that subclasses override. The methods
  that take \<^verbatim>\<open>sysVersion\<close> may read and write the project folder, so they take the
  folder and return it.
\<close>

record Generator =
  applies :: bool
  baseName :: string
  baseVersion :: string
  envVars :: "string \<Rightarrow> Doer \<Rightarrow> (string \<times> string) list \<times> Doer"
  aptKeysCommand :: "string \<Rightarrow> Doer \<Rightarrow> string option \<times> Doer"
  aptRepos :: "string \<Rightarrow> Doer \<Rightarrow> string list \<times> Doer"
  aptPackages :: "string \<Rightarrow> Doer \<Rightarrow> string list \<times> Doer"
  stencilaInstall :: "string \<Rightarrow> Doer \<Rightarrow> string option \<times> Doer"
  installFiles :: "string \<Rightarrow> Doer \<Rightarrow> (string \<times> string) list \<times> Doer"
  installCommand :: "string \<Rightarrow> Doer \<Rightarrow> string option \<times> Doer"
  projectFiles :: "string \<Rightarrow> Doer \<Rightarrow> (string \<times> string) list \<times> Doer"
  runCommand :: "string \<Rightarrow> Doer \<Rightarrow> string option \<times> Doer"

text \<open>The defaults of the class \<^verbatim>\<open>Generator\<close>.\<close>

definition Generator_defaults :: Generator where
  "Generator_defaults =
     \<lparr> applies = False,
       baseName = ''ubuntu'',
       baseVersion = ''18.04'',
       envVars = (\<lambda>sysVersion doer. ([], doer)),
       aptKeysCommand = (\<lambda>sysVersion doer. (None, doer)),
       aptRepos = (\<lambda>sysVersion doer. ([], doer)),
       aptPackages = (\<lambda>sysVersion doer. ([], doer)),
       stencilaInstall = (\<lambda>sysVersion doer. (None, doer)),
       installFiles = (\<lambda>sysVersion doer. ([], doer)),
       installCommand = (\<lambda>sysVersion doer. (None, doer)),
       projectFiles = (\<lambda>sysVersion doer. ([], doer)),
       runCommand = (\<lambda>sysVersion doer. (None, doer)) \<rparr>"

definition baseIdentifier :: "Generator \<Rightarrow> string" where
  "baseIdentifier this =
     (let joiner = (if baseVersion this = '''' then '''' else '':'')
      in baseName this @ joiner @ baseVersion this)"

text \<open>
  Reading a property of an object literal gives the string the literal declares under
  that name, or else the member of that name which every object inherits from
  \<^verbatim>\<open>Object.prototype\<close> (a function, or the prototype itself for \<^verbatim>\<open>__proto__\<close>), or
  else \<^verbatim>\<open>undefined\<close>. The inherited names are those of the standard library with its
  legacy accessors.
\<close>

datatype Property = Undefined | Declared string | Inherited string

definition Object_prototype :: "string list" where
  "Object_prototype =
     [''constructor'', ''hasOwnProperty'', ''isPrototypeOf'', ''propertyIsEnumerable'',
      ''toLocaleString'', ''toString'', ''valueOf'', ''__proto__'',
      ''__defineGetter__'', ''__defineSetter__'', ''__lookupGetter__'', ''__lookupSetter__'']"

definition get_property :: "(string \<times> string) list \<Rightarrow> string \<Rightarrow> Property" where
  "get_property literal key =
     (case map_of literal key of
        Some s \<Rightarrow> Declared s
      | None \<Rightarrow> if key \<in> set Object_prototype then Inherited key else Undefined)"

text \<open>
  A property inside a template literal: \<^verbatim>\<open>undefined\<close> prints as that word, a string
  as itself, an inherited function as Node prints a built-in function (the member
  \<^verbatim>\<open>constructor\<close> is the function \<^verbatim>\<open>Object\<close>) and the prototype as an object.
\<close>

definition template_text :: "Property \<Rightarrow> string" where
  "template_text p =
     (case p of
        Undefined \<Rightarrow> ''undefined''
      | Declared s \<Rightarrow> s
      | Inherited m \<Rightarrow>
          if m = ''__proto__'' then ''[object Object]''
          else ''function '' @ (if m = ''constructor'' then ''Object'' else m) @ ''() { [native code] }'')"

text \<open>
  \<^verbatim>\<open>baseVersionName\<close>: the destructuring takes the first two fields of the split, the
  second being \<^verbatim>\<open>undefined\<close> when there is no colon; an \<^verbatim>\<open>undefined\<close> key reads the
  property named \<^verbatim>\<open>undefined\<close>. The lookup is a property read on the object literal
  with its three declared names.
\<close>

definition baseVersionName :: "string \<Rightarrow> Property" where
  "baseVersionName baseId =
     (let parts = split_on (CHR '':'') baseId;
          version = (if 1 < length parts then Some (parts ! 1) else None);
          lookup = get_property
            [(''14.04'', ''trusty''),
             (''16.04'', ''xenial''),
             (''18.04'', ''bionic'')]
      in lookup (text_of version))"

text \<open>
  \<^verbatim>\<open>Generator.generate\<close>. The text grows by \<^verbatim>\<open>dockerfile += ...\<close>; every method is
  called where the source calls it. \<^verbatim>\<open>VERSION\<close> is the version field of the package
  file, \<open>clock\<close> the reading of the clock when the header is written.
\<close>

definition generate :: "Generator \<Rightarrow> string \<Rightarrow> Clock \<Rightarrow> bool \<Rightarrow> Doer \<Rightarrow> string \<times> Doer" where
  "generate this VERSION clock comments doer =
    (let dockerfile = '''';
         dockerfile = (if comments then dockerfile
             @ ''# Generated by Dockter '' @ VERSION @ '' at '' @ now_iso clock @ nl
             @ ''# To stop Dockter generating this file and start editing it yourself,'' @ nl
             @ ''# rename it to '' @ dq @ ''Dockerfile'' @ dq @ ''.'' @ nl
           else dockerfile);
         dockerfile = (if comments then dockerfile
             @ nl @ ''# This tells Docker which base image to use.'' @ nl
           else dockerfile);
         baseId = baseIdentifier this;
         dockerfile = dockerfile @ ''FROM '' @ baseId @ nl
     in if \<not> applies this then (dockerfile, doer)
     else
      (let (envVars', doer) = envVars this baseId doer;
           dockerfile = (if envVars' \<noteq> [] then
               (let dockerfile = (if comments then dockerfile
                        @ nl @ ''# This section sets environment variables within the image.''
                      else dockerfile);
                    pairs = map (\<lambda>(key, value).
                        key @ ''='' @ dq @ replace_first (\<lambda>c. c = CHR 0x22) (bs @ dq) value @ dq) envVars'
                in dockerfile @ nl @ ''ENV '' @ join ('' '' @ bs @ nl @ ''    '') pairs @ nl)
             else dockerfile);
           (aptRepos', doer) = aptRepos this baseId doer;
           (aptKeysCommand', doer) = aptKeysCommand this baseId doer;
           dockerfile = (if aptRepos' \<noteq> [] \<or> truthy aptKeysCommand' then
               (let dockerfile = (if comments then dockerfile
                        @ nl @ ''# This section installs system packages needed to add extra system repositories.''
                      else dockerfile)
                in dockerfile @ nl
                   @ ''RUN apt-get update '' @ bs @ nl
                   @ '' && DEBIAN_FRONTEND=noninteractive apt-get install -y '' @ bs @ nl
                   @ ''      apt-transport-https '' @ bs @ nl
                   @ ''      ca-certificates '' @ bs @ nl
                   @ ''      curl '' @ bs @ nl
                   @ ''      software-properties-common'' @ nl)
             else dockerfile);
           dockerfile = (if aptRepos' \<noteq> [] then
               (let dockerfile = (if comments then dockerfile
                        @ nl @ ''# This section adds system repositories required to install extra system packages.''
                      else dockerfile)
                in dockerfile @ nl @ ''RUN ''
                   @ join ('' '' @ bs @ nl @ '' && '')
                       (map (\<lambda>repo. ''apt-add-repository '' @ dq @ repo @ dq) aptRepos')
                   @ nl)
             else dockerfile);
           dockerfile = (if truthy aptKeysCommand'
             then dockerfile @ ''RUN '' @ text_of aptKeysCommand' @ nl
             else dockerfile);
           (aptPackages', doer) = aptPackages this baseId doer;
           dockerfile = (if aptPackages' \<noteq> [] then
               (let dockerfile = (if comments then dockerfile
                        @ nl @ ''# This section installs system packages required for your project''
                        @ nl @ ''# If you need extra system packages add them here.''
                      else dockerfile)
                in dockerfile @ nl
                   @ ''RUN apt-get update '' @ bs @ nl
                   @ '' && DEBIAN_FRONTEND=noninteractive apt-get install -y '' @ bs @ nl
                   @ ''      '' @ join ('' '' @ bs @ nl @ ''      '') aptPackages' @ '' '' @ bs @ nl
                   @ '' && apt-get autoremove -y '' @ bs @ nl
                   @ '' && apt-get clean '' @ bs @ nl
                   @ '' && rm -rf /var/lib/apt/lists/*'' @ nl)
             else dockerfile);
           (stencilaInstall', doer) = stencilaInstall this baseId doer;
           dockerfile = (if truthy stencilaInstall' then
               (let dockerfile = (if comments then dockerfile
                        @ nl @ ''# This section runs commands to install Stencila execution hosts.''
                      else dockerfile)
                in dockerfile @ nl @ ''RUN '' @ text_of stencilaInstall' @ nl)
             else dockerfile);
           dockerfile = (if comments then dockerfile
               @ nl @ ''# It's good practice to run Docker images as a non-root user.''
               @ nl @ ''# This section creates a new user, sets it as the user for the image, and it's''
               @ nl @ ''# home directory as the working directory.''
             else dockerfile);
           dockerfile = dockerfile @ nl
               @ ''RUN useradd --create-home --uid 1001 -s /bin/bash dockteruser'' @ nl
               @ ''USER dockteruser'' @ nl
               @ ''WORKDIR /home/dockteruser'' @ nl;
           (installFiles', doer) = installFiles this baseId doer;
           (installCommand', doer) = installCommand this baseId doer;
           (projectFiles', doer) = projectFiles this baseId doer;
           (runCommand', doer) = runCommand this baseId doer;
           dockerfile = (if truthy installCommand' then
               (let dockerfile = (if comments then dockerfile
                        @ nl @ ''# This is a special comment to tell Dockter to manage the build from here on''
                      else dockerfile)
                in dockerfile @ nl @ ''# dockter'' @ nl)
             else dockerfile);
           dockerfile = (if installFiles' \<noteq> [] then
               (let dockerfile = (if comments then dockerfile
                        @ nl @ ''# This section copies package requirement files into the image''
                      else dockerfile)
                in dockerfile @ nl
                   @ join nl (map (\<lambda>(src, dest). ''COPY '' @ src @ '' '' @ dest) installFiles') @ nl)
             else dockerfile);
           dockerfile = (if truthy installCommand' then
               (let dockerfile = (if comments then dockerfile
                        @ nl @ ''# This section runs commands to install the packages specified in the requirement file/s''
                      else dockerfile)
                in dockerfile @ nl @ ''RUN '' @ text_of installCommand' @ nl)
             else dockerfile);
           dockerfile = (if projectFiles' \<noteq> [] then
               (let dockerfile = (if comments then dockerfile
                        @ nl @ ''# This section copies your project's files into the image''
                      else dockerfile)
                in dockerfile @ nl
                   @ join nl (map (\<lambda>(src, dest). ''COPY '' @ src @ '' '' @ dest) projectFiles') @ nl)
             else dockerfile);
           dockerfile = (if truthy runCommand' then
               (let dockerfile = (if comments then dockerfile
                        @ nl @ ''# This tells Docker the default command to run when the container is started''
                      else dockerfile)
                in dockerfile @ nl @ ''CMD '' @ text_of runCommand' @ nl)
             else dockerfile);
           doer = Doer_write doer ''.Dockerfile'' dockerfile
       in (dockerfile, doer)))"

section \<open>The R generator\<close>

text \<open>
  The constructor fixes \<^verbatim>\<open>this.date\<close>: the environment's date of publication, or
  the first ten characters of yesterday's timestamp when that is missing or empty.
\<close>

definition RGenerator_date :: "SoftwareEnvironment \<Rightarrow> Clock \<Rightarrow> string" where
  "RGenerator_date environ clock =
     (let date = datePublished environ
      in if \<not> truthy date then take 10 (yesterday_iso clock) else text_of date)"

definition RGenerator_envVars :: "string \<Rightarrow> (string \<times> string) list" where
  "RGenerator_envVars sysVersion = [(''TZ'', ''Etc/UTC''), (''R_LIBS_USER'', ''~/R'')]"

definition RGenerator_aptKeysCommand :: "string \<Rightarrow> string" where
  "RGenerator_aptKeysCommand sysVersion =
     ''apt-key adv --keyserver keyserver.ubuntu.com --recv-keys 51716619E084DAB9''"

definition RGenerator_aptRepos :: "string \<Rightarrow> string \<Rightarrow> string list" where
  "RGenerator_aptRepos date base =
     [''deb https://mran.microsoft.com/snapshot/'' @ date @ ''/bin/linux/ubuntu ''
        @ template_text (baseVersionName base) @ ''/'']"

definition RGenerator_stencilaInstall :: "string \<Rightarrow> string option" where
  "RGenerator_stencilaInstall sysVersion = Some
     (''apt-get update '' @ bs @ nl
      @ '' && apt-get install -y  zlib1g-dev libxml2-dev pkg-config '' @ bs @ nl
      @ '' && apt-get autoremove -y '' @ bs @ nl
      @ '' && apt-get clean '' @ bs @ nl
      @ '' && rm -rf /var/lib/apt/lists/* '' @ bs @ nl
      @ '' && Rscript -e 'install.packages('' @ dq @ ''devtools'' @ dq @ '')' '' @ bs @ nl
      @ '' && Rscript -e 'source('' @ dq @ ''https://bioconductor.org/biocLite.R'' @ dq
          @ ''); biocLite('' @ dq @ ''graph'' @ dq @ '')' '' @ bs @ nl
      @ '' && Rscript -e 'devtools::install_github('' @ dq @ ''r-lib/pkgbuild'' @ dq @ '')' '' @ bs @ nl
      @ '' && Rscript -e 'devtools::install_github('' @ dq @ ''stencila/r'' @ dq @ '')'' @ sq)"

text \<open>
  \<^verbatim>\<open>installFiles\<close>. The helper \<^verbatim>\<open>filterPackages\<close> is not among the sources; what
  it answers for a runtime platform is a parameter. \<open>clock\<close> is the reading of the clock
  when the descriptor is written. \<^verbatim>\<open>join\<close> prints a missing name as the empty string.
\<close>

definition RGenerator_installFiles ::
  "SoftwareEnvironment \<Rightarrow> string \<Rightarrow> (string \<Rightarrow> SoftwarePackage list) \<Rightarrow> Clock
     \<Rightarrow> string \<Rightarrow> Doer \<Rightarrow> (string \<times> string) list \<times> Doer" where
  "RGenerator_installFiles environ date filterPackages clock sysVersion doer =
     (if Doer_exists doer ''install.R'' then ([(''install.R'', ''install.R'')], doer)
      else if Doer_exists doer ''DESCRIPTION'' then ([(''DESCRIPTION'', ''DESCRIPTION'')], doer)
      else
       (let name' = replace_first (\<lambda>c. \<not> is_alnum c) '''' (or_else (environ_name environ) ''unnamed'');
            pkgs = map name (filterPackages ''R'');
            desc = ''Package: '' @ name' @ nl
              @ ''Version: 1.0.0'' @ nl
              @ ''Date: '' @ date @ nl
              @ ''Imports:'' @ nl @ ''  ''
              @ join ('','' @ nl @ ''  '') (map (\<lambda>n. case n of None \<Rightarrow> '''' | Some s \<Rightarrow> s) pkgs) @ nl
              @ ''Description: Generated by Dockter '' @ now_iso clock @ ''.'' @ nl
              @ ''  To stop Dockter generating this file and start editing it yourself, rename it to ''
              @ dq @ ''DESCRIPTION'' @ dq @ ''.'' @ nl;
            doer = Doer_write doer ''.DESCRIPTION'' desc
        in ([(''.DESCRIPTION'', ''DESCRIPTION'')], doer)))"

definition RGenerator_installCommand :: "string \<Rightarrow> Doer \<Rightarrow> string option" where
  "RGenerator_installCommand sysVersion doer =
     (let cmd = ''mkdir ~/R'';
          cmd = (if Doer_exists doer ''install.R''
                 then cmd @ '' '' @ bs @ nl @ '' && Rscript install.R''
                 else if Doer_exists doer ''DESCRIPTION'' \<or> Doer_exists doer ''.DESCRIPTION''
                 then cmd @ '' '' @ bs @ nl @ '' && bash -c '' @ dq
                   @ ''Rscript <(curl -sL https://unpkg.com/@stencila/dockter/src/install.R)'' @ dq
                 else cmd)
      in Some cmd)"

definition RGenerator_projectFiles :: "Doer \<Rightarrow> (string \<times> string) list" where
  "RGenerator_projectFiles doer =
     (let rfiles = Doer_glob doer ''**/*.R'' in map (\<lambda>file. (file, file)) rfiles)"

text \<open>
  \<^verbatim>\<open>runCommand\<close>. The bare \<^verbatim>\<open>return\<close> gives \<^verbatim>\<open>undefined\<close>; \<^verbatim>\<open>rfiles[0]\<close> is
  read only when the list is not empty.
\<close>

definition RGenerator_runCommand :: "Doer \<Rightarrow> string option" where
  "RGenerator_runCommand doer =
     (let rfiles = Doer_glob doer ''**/*.R''
      in if length rfiles = 0 then None
         else
          (let script = (if ''main.R'' \<in> set rfiles then ''main.R''
                         else if ''cmd.R'' \<in> set rfiles then ''cmd.R''
                         else rfiles ! 0)
           in Some (''Rscript '' @ script)))"

text \<open>
  The object \<^verbatim>\<open>new RGenerator(environ, folder)\<close> as a generator: the methods the
  class overrides, the others inherited. \<open>clock\<close> is the reading of the clock in the
  constructor, \<open>clock'\<close> the one in \<^verbatim>\<open>installFiles\<close>. The class reads
  \<^verbatim>\<open>applies\<close> and \<^verbatim>\<open>filterPackages\<close> from a parent that is not among the sources
  (the parent at hand answers \<^verbatim>\<open>false\<close> and has no \<^verbatim>\<open>filterPackages\<close>); both are
  parameters.
\<close>

definition RGenerator ::
  "SoftwareEnvironment \<Rightarrow> Clock \<Rightarrow> bool \<Rightarrow> (string \<Rightarrow> SoftwarePackage list) \<Rightarrow> Clock \<Rightarrow> Generator" where
  "RGenerator environ clock applies' filterPackages clock' =
     (let date = RGenerator_date environ clock
      in Generator_defaults
         \<lparr> applies := applies',
           baseVersion := ''16.04'',
           envVars := (\<lambda>sysVersion doer. (RGenerator_envVars sysVersion, doer)),
           aptKeysCommand := (\<lambda>sysVersion doer. (Some (RGenerator_aptKeysCommand sysVersion), doer)),
           aptRepos := (\<lambda>base doer. (RGenerator_aptRepos date base, doer)),
           aptPackages := (\<lambda>sysVersion doer. (RGenerator_aptPackages environ, doer)),
           stencilaInstall := (\<lambda>sysVersion doer. (RGenerator_stencilaInstall sysVersion, doer)),
           installFiles := RGenerator_installFiles environ date filterPackages clock',
           installCommand := (\<lambda>sysVersion doer. (RGenerator_installCommand sysVersion doer, doer)),
           projectFiles := (\<lambda>sysVersion doer. (RGenerator_projectFiles doer, doer)),
           runCommand := (\<lambda>sysVersion doer. (RGenerator_runCommand doer, doer)) \<rparr>)"

section \<open>The specification's reading of the walk and of the composer\<close>

text \<open>
  The dependency walk as the specification words it: at a node whose
  \<^verbatim>\<open>runtimePlatform\<close> is not the ecosystem tag, stop; otherwise, for each child in
  order, record the name of a native-tagged child (the empty string for an absent name)
  and recurse into any other child.
\<close>

definition recorded_name :: "SoftwarePackage \<Rightarrow> string" where
  "recorded_name d = (case name d of None \<Rightarrow> '''' | Some s \<Rightarrow> s)"

fun walk :: "string \<Rightarrow> string \<Rightarrow> SoftwarePackage \<Rightarrow> string list" where
  "walk tag native (SoftwarePackage n rp reqs) =
     (if rp \<noteq> Some tag then []
      else concat (map (\<lambda>child. if runtimePlatform child = Some native
                                 then [recorded_name child]
                                 else walk tag native child)
                       (case reqs of None \<Rightarrow> [] | Some cs \<Rightarrow> cs)))"

text \<open>
  \<open>native_of tag native p d\<close>: the package \<open>d\<close> is native-tagged and is a child of the
  last node of a chain of ecosystem-tagged packages that starts at \<open>p\<close>, each the child
  of the one before.
\<close>

inductive native_of :: "string \<Rightarrow> string \<Rightarrow> SoftwarePackage \<Rightarrow> SoftwarePackage \<Rightarrow> bool"
  for tag native where
  direct: "runtimePlatform p = Some tag \<Longrightarrow> softwareRequirements p = Some cs \<Longrightarrow>
           d \<in> set cs \<Longrightarrow> runtimePlatform d = Some native \<Longrightarrow> native_of tag native p d"
| through: "runtimePlatform p = Some tag \<Longrightarrow> softwareRequirements p = Some cs \<Longrightarrow>
           c \<in> set cs \<Longrightarrow> runtimePlatform c \<noteq> Some native \<Longrightarrow> native_of tag native c d \<Longrightarrow>
           native_of tag native p d"

definition top_level :: "SoftwareEnvironment \<Rightarrow> SoftwarePackage list" where
  "top_level environ = (case environ_softwareRequirements environ of None \<Rightarrow> [] | Some reqs \<Rightarrow> reqs)"

text \<open>
  The sections of the build file in the order of the specification's list, the steps
  that need root before the privilege drop and the steps of the non-root user after it.
\<close>

datatype Section =
  BaseImage | Environment | RepositoryBootstrap | RepositoryAdd | KeyRegistration
  | SystemPackages | EcosystemBootstrap | PrivilegeDrop | ManagedInstallMarker
  | InstallFileStaging | InstallCommand | ProjectFileStaging | RunCommand

definition root_steps :: "Section list" where
  "root_steps = [BaseImage, Environment, RepositoryBootstrap, RepositoryAdd, KeyRegistration,
                 SystemPackages, EcosystemBootstrap]"

definition user_steps :: "Section list" where
  "user_steps = [ManagedInstallMarker, InstallFileStaging, InstallCommand, ProjectFileStaging,
                 RunCommand]"

definition section_order :: "Section list" where
  "section_order = root_steps @ [PrivilegeDrop] @ user_steps"

text \<open>
  What the adapter answered during one composition, and the calls in the order in which
  \<^verbatim>\<open>generate\<close> makes them (the install files, the install command, the project files
  and the run command are all asked for before the managed-install marker is written).
\<close>

record Answers =
  ans_envVars :: "(string \<times> string) list"
  ans_aptRepos :: "string list"
  ans_aptKeysCommand :: "string option"
  ans_aptPackages :: "string list"
  ans_stencilaInstall :: "string option"
  ans_installFiles :: "(string \<times> string) list"
  ans_installCommand :: "string option"
  ans_projectFiles :: "(string \<times> string) list"
  ans_runCommand :: "string option"

definition invoke :: "Generator \<Rightarrow> Doer \<Rightarrow> Answers \<times> Doer" where
  "invoke this doer =
     (let baseId = baseIdentifier this;
          (ev, doer) = envVars this baseId doer;
          (repos, doer) = aptRepos this baseId doer;
          (keys, doer) = aptKeysCommand this baseId doer;
          (pkgs, doer) = aptPackages this baseId doer;
          (boot, doer) = stencilaInstall this baseId doer;
          (ifiles, doer) = installFiles this baseId doer;
          (icmd, doer) = installCommand this baseId doer;
          (pfiles, doer) = projectFiles this baseId doer;
          (rcmd, doer) = runCommand this baseId doer
      in (\<lparr> ans_envVars = ev, ans_aptRepos = repos, ans_aptKeysCommand = keys,
             ans_aptPackages = pkgs, ans_stencilaInstall = boot, ans_installFiles = ifiles,
             ans_installCommand = icmd, ans_projectFiles = pfiles, ans_runCommand = rcmd \<rparr>,
          doer))"

text \<open>A section is emitted when its content is not empty.\<close>

fun present :: "Answers \<Rightarrow> Section \<Rightarrow> bool" where
  "present a BaseImage = True"
| "present a Environment = (ans_envVars a \<noteq> [])"
| "present a RepositoryBootstrap = (ans_aptRepos a \<noteq> [] \<or> truthy (ans_aptKeysCommand a))"
| "present a RepositoryAdd = (ans_aptRepos a \<noteq> [])"
| "present a KeyRegistration = truthy (ans_aptKeysCommand a)"
| "present a SystemPackages = (ans_aptPackages a \<noteq> [])"
| "present a EcosystemBootstrap = truthy (ans_stencilaInstall a)"
| "present a PrivilegeDrop = True"
| "present a ManagedInstallMarker = truthy (ans_installCommand a)"
| "present a InstallFileStaging = (ans_installFiles a \<noteq> [])"
| "present a InstallCommand = truthy (ans_installCommand a)"
| "present a ProjectFileStaging = (ans_projectFiles a \<noteq> [])"
| "present a RunCommand = truthy (ans_runCommand a)"

text \<open>The explanatory comment that goes before a section when comments are asked for.\<close>

fun explain :: "string \<Rightarrow> Clock \<Rightarrow> Section \<Rightarrow> string" where
  "explain VERSION clock BaseImage =
     ''# Generated by Dockter '' @ VERSION @ '' at '' @ now_iso clock @ nl
     @ ''# To stop Dockter generating this file and start editing it yourself,'' @ nl
     @ ''# rename it to '' @ dq @ ''Dockerfile'' @ dq @ ''.'' @ nl
     @ nl @ ''# This tells Docker which base image to use.'' @ nl"
| "explain VERSION clock Environment =
     nl @ ''# This section sets environment variables within the image.''"
| "explain VERSION clock RepositoryBootstrap =
     nl @ ''# This section installs system packages needed to add extra system repositories.''"
| "explain VERSION clock RepositoryAdd =
     nl @ ''# This section adds system repositories required to install extra system packages.''"
| "explain VERSION clock KeyRegistration = ''''"
| "explain VERSION clock SystemPackages =
     nl @ ''# This section installs system packages required for your project''
     @ nl @ ''# If you need extra system packages add them here.''"
| "explain VERSION clock EcosystemBootstrap =
     nl @ ''# This section runs commands to install Stencila execution hosts.''"
| "explain VERSION clock PrivilegeDrop =
     nl @ ''# It's good practice to run Docker images as a non-root user.''
     @ nl @ ''# This section creates a new user, sets it as the user for the image, and it's''
     @ nl @ ''# home directory as the working directory.''"
| "explain VERSION clock ManagedInstallMarker =
     nl @ ''# This is a special comment to tell Dockter to manage the build from here on''"
| "explain VERSION clock InstallFileStaging =
     nl @ ''# This section copies package requirement files into the image''"
| "explain VERSION clock InstallCommand =
     nl @ ''# This section runs commands to install the packages specified in the requirement file/s''"
| "explain VERSION clock ProjectFileStaging =
     nl @ ''# This section copies your project's files into the image''"
| "explain VERSION clock RunCommand =
     nl @ ''# This tells Docker the default command to run when the container is started''"

text \<open>The instructions of a section.\<close>

definition copy_lines :: "(string \<times> string) list \<Rightarrow> string" where
  "copy_lines pairs = join nl (map (\<lambda>(src, dest). ''COPY '' @ src @ '' '' @ dest) pairs)"

definition env_pair :: "string \<times> string \<Rightarrow> string" where
  "env_pair kv = fst kv @ ''='' @ dq @ replace_first (\<lambda>c. c = CHR 0x22) (bs @ dq) (snd kv) @ dq"

fun instruction :: "string \<Rightarrow> Answers \<Rightarrow> Section \<Rightarrow> string" where
  "instruction baseId a BaseImage = ''FROM '' @ baseId @ nl"
| "instruction baseId a Environment =
     nl @ ''ENV '' @ join ('' '' @ bs @ nl @ ''    '') (map env_pair (ans_envVars a)) @ nl"
| "instruction baseId a RepositoryBootstrap =
     nl @ ''RUN apt-get update '' @ bs @ nl
     @ '' && DEBIAN_FRONTEND=noninteractive apt-get install -y '' @ bs @ nl
     @ ''      apt-transport-https '' @ bs @ nl
     @ ''      ca-certificates '' @ bs @ nl
     @ ''      curl '' @ bs @ nl
     @ ''      software-properties-common'' @ nl"
| "instruction baseId a RepositoryAdd =
     nl @ ''RUN '' @ join ('' '' @ bs @ nl @ '' && '')
        (map (\<lambda>repo. ''apt-add-repository '' @ dq @ repo @ dq) (ans_aptRepos a)) @ nl"
| "instruction baseId a KeyRegistration = ''RUN '' @ text_of (ans_aptKeysCommand a) @ nl"
| "instruction baseId a SystemPackages =
     nl @ ''RUN apt-get update '' @ bs @ nl
     @ '' && DEBIAN_FRONTEND=noninteractive apt-get install -y '' @ bs @ nl
     @ ''      '' @ join ('' '' @ bs @ nl @ ''      '') (ans_aptPackages a) @ '' '' @ bs @ nl
     @ '' && apt-get autoremove -y '' @ bs @ nl
     @ '' && apt-get clean '' @ bs @ nl
     @ '' && rm -rf /var/lib/apt/lists/*'' @ nl"
| "instruction baseId a EcosystemBootstrap = nl @ ''RUN '' @ text_of (ans_stencilaInstall a) @ nl"
| "instruction baseId a PrivilegeDrop =
     nl @ ''RUN useradd --create-home --uid 1001 -s /bin/bash dockteruser'' @ nl
     @ ''USER dockteruser'' @ nl
     @ ''WORKDIR /home/dockteruser'' @ nl"
| "instruction baseId a ManagedInstallMarker = nl @ ''# dockter'' @ nl"
| "instruction baseId a InstallFileStaging = nl @ copy_lines (ans_installFiles a) @ nl"
| "instruction baseId a InstallCommand = nl @ ''RUN '' @ text_of (ans_installCommand a) @ nl"
| "instruction baseId a ProjectFileStaging = nl @ copy_lines (ans_projectFiles a) @ nl"
| "instruction baseId a RunCommand = nl @ ''CMD '' @ text_of (ans_runCommand a) @ nl"

definition render :: "string \<Rightarrow> string \<Rightarrow> Clock \<Rightarrow> bool \<Rightarrow> Answers \<Rightarrow> Section \<Rightarrow> string" where
  "render baseId VERSION clock comments a s =
     (if comments then explain VERSION clock s else '''') @ instruction baseId a s"

definition emitted :: "Answers \<Rightarrow> Section list \<Rightarrow> Section list" where
  "emitted a steps = filter (present a) steps"

text \<open>
  A text made of comment lines only: every line, between line feeds, is empty or starts
  with the comment sign.
\<close>

definition comment_only :: "string \<Rightarrow> bool" where
  "comment_only s = list_all (\<lambda>l. case l of [] \<Rightarrow> True | c # _ \<Rightarrow> c = CHR ''#'') (split_on (CHR 0x0A) s)"

text \<open>
  The answers of the R generator during one composition that starts in the folder
  \<open>doer\<close>, written out (and proved below to be what the calls return): the install
  command is asked for after the install files, so it sees the descriptor that
  \<^verbatim>\<open>installFiles\<close> has written.
\<close>

definition RGenerator_answers :: "SoftwareEnvironment \<Rightarrow> string \<Rightarrow> Doer \<Rightarrow> Answers" where
  "RGenerator_answers environ date doer =
     \<lparr> ans_envVars = RGenerator_envVars ''ubuntu:16.04'',
       ans_aptRepos = RGenerator_aptRepos date ''ubuntu:16.04'',
       ans_aptKeysCommand = Some (RGenerator_aptKeysCommand ''ubuntu:16.04''),
       ans_aptPackages = RGenerator_aptPackages environ,
       ans_stencilaInstall = RGenerator_stencilaInstall ''ubuntu:16.04'',
       ans_installFiles =
         (if Doer_exists doer ''install.R'' then [(''install.R'', ''install.R'')]
          else if Doer_exists doer ''DESCRIPTION'' then [(''DESCRIPTION'', ''DESCRIPTION'')]
          else [(''.DESCRIPTION'', ''DESCRIPTION'')]),
       ans_installCommand =
         Some (''mkdir ~/R'' @
           (if Doer_exists doer ''install.R'' then '' '' @ bs @ nl @ '' && Rscript install.R''
            else '' '' @ bs @ nl @ '' && bash -c '' @ dq
              @ ''Rscript <(curl -sL https://unpkg.com/@stencila/dockter/src/install.R)'' @ dq)),
       ans_projectFiles = RGenerator_projectFiles doer,
       ans_runCommand = RGenerator_runCommand doer \<rparr>"

section \<open>Sample inputs\<close>

text \<open>Concrete generators, folders and clocks at which the theorems below are evaluated.\<close>

definition empty_folder :: Doer where
  "empty_folder = \<lparr> files = Map.empty, listing = (\<lambda>pattern. []) \<rparr>"

definition sample_clock :: Clock where
  "sample_clock = \<lparr> now_iso = ''2018-10-06T01:02:03.000Z'', yesterday_iso = ''2018-10-05T01:02:03.000Z'' \<rparr>"

definition quoting_generator :: Generator where
  "quoting_generator = Generator_defaults
     \<lparr> applies := True,
       envVars := (\<lambda>sysVersion doer. ([(''A'', ''a'' @ dq @ ''b'' @ dq @ ''c'')], doer)) \<rparr>"

definition applying_generator :: Generator where
  "applying_generator = Generator_defaults
     \<lparr> applies := True,
       envVars := (\<lambda>sysVersion doer. ([(''A'', ''b'')], doer)),
       runCommand := (\<lambda>sysVersion doer. (Some ''x'', doer)) \<rparr>"

definition listing_folder :: "string list \<Rightarrow> Doer" where
  "listing_folder rfiles = \<lparr> files = Map.empty, listing = (\<lambda>pattern. if pattern = ''**/*.R'' then rfiles else []) \<rparr>"

definition folder_with :: "string list \<Rightarrow> Doer" where
  "folder_with paths = \<lparr> files = map_of (map (\<lambda>path. (path, ''user text'')) paths), listing = (\<lambda>pattern. []) \<rparr>"

definition no_packages :: "string \<Rightarrow> SoftwarePackage list" where
  "no_packages platform = []"

definition sample_environ :: SoftwareEnvironment where
  "sample_environ =
     \<lparr> environ_name = Some ''my proj'', datePublished = None,
       environ_softwareRequirements = Some
         [SoftwarePackage (Some ''ggplot2'') (Some ''R'') None] \<rparr>"

definition sample_packages :: "string \<Rightarrow> SoftwarePackage list" where
  "sample_packages platform = filter (\<lambda>pkg. runtimePlatform pkg = Some platform) (top_level sample_environ)"

definition libcurl :: SoftwarePackage where
  "libcurl = SoftwarePackage (Some ''libcurl'') (Some ''deb'') None"

definition shared_name_environ :: SoftwareEnvironment where
  "shared_name_environ =
     \<lparr> environ_name = None, datePublished = None,
       environ_softwareRequirements = Some
         [libcurl,
          SoftwarePackage (Some ''curl'') (Some ''R'') (Some
            [SoftwarePackage (Some ''libcurl'') (Some ''deb'') None])] \<rparr>"

definition later_clock :: Clock where
  "later_clock = \<lparr> now_iso = ''2018-10-07T01:02:03.000Z'', yesterday_iso = ''2018-10-06T01:02:03.000Z'' \<rparr>"

definition undated_environ :: SoftwareEnvironment where
  "undated_environ = \<lparr> environ_name = None, datePublished = None, environ_softwareRequirements = None \<rparr>"

definition dated_environ :: SoftwareEnvironment where
  "dated_environ =
     \<lparr> environ_name = None, datePublished = Some ''2018-01-01'', environ_softwareRequirements = None \<rparr>"


section \<open>Lemmas on strings and lists\<close>

lemma if_app: "(if c then d @ x else d) = d @ (if c then x else [])"
  by simp

lemma concat_map_filter:
  "concat (map f (filter P xs)) = concat (map (\<lambda>s. if P s then f s else []) xs)"
  by (induction xs) auto

lemma or_else_empty: "or_else (name d) '''' = recorded_name d"
  by (cases "name d") (auto simp: recorded_name_def)

section \<open>The dependency walk\<close>

lemma fold_children_walk:
  assumes "\<And>c acc. c \<in> set cs \<Longrightarrow> runtimePlatform c \<noteq> Some ''deb'' \<Longrightarrow>
             find_pkg c acc = acc @ walk ''R'' ''deb'' c"
  shows "fold (\<lambda>subpkg debpkgs.
                 if runtimePlatform subpkg = Some ''deb''
                 then debpkgs @ [or_else (name subpkg) '''']
                 else find_pkg subpkg debpkgs) cs acc
         = acc @ concat (map (\<lambda>child. if runtimePlatform child = Some ''deb''
                                      then [recorded_name child]
                                      else walk ''R'' ''deb'' child) cs)"
  using assms
proof (induction cs arbitrary: acc)
  case Nil
  show ?case by simp
next
  case (Cons c cs)
  then show ?case by (simp add: or_else_empty)
qed

lemma find_pkg_walk: "find_pkg p acc = acc @ walk ''R'' ''deb'' p"
proof (induction p acc rule: find_pkg.induct)
  case (1 n rp debpkgs)
  show ?case by simp
next
  case (2 n rp reqs debpkgs)
  show ?case
  proof (cases "rp = Some ''R''")
    case True
    have "\<And>c acc. c \<in> set reqs \<Longrightarrow> runtimePlatform c \<noteq> Some ''deb'' \<Longrightarrow>
            find_pkg c acc = acc @ walk ''R'' ''deb'' c"
      using "2.IH" True by blast
    from fold_children_walk[of reqs, OF this] True show ?thesis by simp
  next
    case False
    then show ?thesis by simp
  qed
qed

lemma fold_find_pkg: "fold find_pkg ps acc = acc @ concat (map (walk ''R'' ''deb'') ps)"
  by (induction ps arbitrary: acc) (simp_all add: find_pkg_walk)

lemma walk_sound:
  "x \<in> set (walk tag native p) \<Longrightarrow> \<exists>d. native_of tag native p d \<and> x = recorded_name d"
proof (induction tag native p arbitrary: x rule: walk.induct)
  case (1 tag native n rp reqs)
  from "1.prems" have rp: "rp = Some tag" by (simp split: if_splits)
  from "1.prems" rp obtain cs where cs: "reqs = Some cs" by (cases reqs) auto
  from "1.prems" rp cs obtain c where c: "c \<in> set cs"
    and x: "x \<in> set (if runtimePlatform c = Some native then [recorded_name c] else walk tag native c)"
    by (auto split: if_splits)
  show ?case
  proof (cases "runtimePlatform c = Some native")
    case True
    with x have "x = recorded_name c" by simp
    moreover have "native_of tag native (SoftwarePackage n rp reqs) c"
      using rp cs c True by (auto intro: native_of.direct)
    ultimately show ?thesis by blast
  next
    case False
    with x have "x \<in> set (walk tag native c)" by simp
    with "1.IH"[of c x] rp cs c False
    obtain d where d: "native_of tag native c d" "x = recorded_name d" by auto
    have "native_of tag native (SoftwarePackage n rp reqs) d"
      using rp cs c False d(1) by (auto intro: native_of.through)
    with d(2) show ?thesis by blast
  qed
qed

lemma walk_complete:
  "native_of tag native p d \<Longrightarrow> recorded_name d \<in> set (walk tag native p)"
proof (induction rule: native_of.induct)
  case (direct p cs d)
  then show ?case by (cases p) auto
next
  case (through p cs c d)
  then show ?case by (cases p) auto
qed

lemma set_walk: "set (walk tag native p) = {recorded_name d | d. native_of tag native p d}"
  using walk_sound walk_complete by blast

text \<open>
  C1. \<^verbatim>\<open>aptPackages\<close> of the R generator is the list the specification's walk records
  over the top-level requirements, in their order and with duplicates kept, followed by
  \<^verbatim>\<open>r-base\<close>; the names the walk records are exactly the names (the empty string for
  an absent name) of the \<^verbatim>\<open>deb\<close>-tagged packages that are children of the last node of
  a chain of \<^verbatim>\<open>R\<close>-tagged packages starting at a top-level requirement. A
  \<^verbatim>\<open>deb\<close>-tagged package below a node of another ecosystem is on no such chain.
\<close>

theorem aptPackages_native_names:
  "RGenerator_aptPackages environ
     = concat (map (walk ''R'' ''deb'') (top_level environ)) @ [''r-base'']
   \<and> set (concat (map (walk ''R'' ''deb'') (top_level environ)))
     = {recorded_name d | d. \<exists>p \<in> set (top_level environ). native_of ''R'' ''deb'' p d}"
proof
  show "RGenerator_aptPackages environ
     = concat (map (walk ''R'' ''deb'') (top_level environ)) @ [''r-base'']"
    by (simp add: RGenerator_aptPackages_def top_level_def fold_find_pkg)
  show "set (concat (map (walk ''R'' ''deb'') (top_level environ)))
     = {recorded_name d | d. \<exists>p \<in> set (top_level environ). native_of ''R'' ''deb'' p d}"
    by (auto simp: set_walk)
qed

text \<open>
  A tree with a native child, a nested R package with three native children (one without
  a name, one a duplicate) and a Python package with a native child.
\<close>
theorem aptPackages_native_names_witness:
  "RGenerator_aptPackages
     \<lparr> environ_name = None, datePublished = None,
       environ_softwareRequirements = Some
         [SoftwarePackage (Some ''A'') (Some ''R'') (Some
            [SoftwarePackage (Some ''B'') (Some ''deb'') None,
             SoftwarePackage (Some ''C'') (Some ''R'') (Some
               [SoftwarePackage (Some ''D'') (Some ''deb'') None,
                SoftwarePackage None (Some ''deb'') None,
                SoftwarePackage (Some ''B'') (Some ''deb'') None]),
             SoftwarePackage (Some ''P'') (Some ''Python'') (Some
               [SoftwarePackage (Some ''E'') (Some ''deb'') None])])] \<rparr>
   = [''B'', ''D'', '''', ''B'', ''r-base'']"
  using aptPackages_native_names
    [of "\<lparr> environ_name = None, datePublished = None,
       environ_softwareRequirements = Some
         [SoftwarePackage (Some ''A'') (Some ''R'') (Some
            [SoftwarePackage (Some ''B'') (Some ''deb'') None,
             SoftwarePackage (Some ''C'') (Some ''R'') (Some
               [SoftwarePackage (Some ''D'') (Some ''deb'') None,
                SoftwarePackage None (Some ''deb'') None,
                SoftwarePackage (Some ''B'') (Some ''deb'') None]),
             SoftwarePackage (Some ''P'') (Some ''Python'') (Some
               [SoftwarePackage (Some ''E'') (Some ''deb'') None])])] \<rparr>"]
  by (simp add: top_level_def recorded_name_def)

section \<open>The composer\<close>

lemma env_pair_eq:
  "(\<lambda>(key, value). key @ ''='' @ dq @ replace_first (\<lambda>c. c = CHR 0x22) (bs @ dq) value @ dq) = env_pair"
  by (auto simp: env_pair_def fun_eq_iff)

lemma compose_unfold:
  "concat (map (render b V clk c a) (emitted a section_order)) =
     render b V clk c a BaseImage
     @ (if present a Environment then render b V clk c a Environment else [])
     @ (if present a RepositoryBootstrap then render b V clk c a RepositoryBootstrap else [])
     @ (if present a RepositoryAdd then render b V clk c a RepositoryAdd else [])
     @ (if present a KeyRegistration then render b V clk c a KeyRegistration else [])
     @ (if present a SystemPackages then render b V clk c a SystemPackages else [])
     @ (if present a EcosystemBootstrap then render b V clk c a EcosystemBootstrap else [])
     @ render b V clk c a PrivilegeDrop
     @ (if present a ManagedInstallMarker then render b V clk c a ManagedInstallMarker else [])
     @ (if present a InstallFileStaging then render b V clk c a InstallFileStaging else [])
     @ (if present a InstallCommand then render b V clk c a InstallCommand else [])
     @ (if present a ProjectFileStaging then render b V clk c a ProjectFileStaging else [])
     @ (if present a RunCommand then render b V clk c a RunCommand else [])"
  unfolding emitted_def concat_map_filter section_order_def root_steps_def user_steps_def
  by (simp split del: if_split)

lemma generate_sections:
  assumes "applies g" and "invoke g d = (a, d')"
  shows "generate g V clk c d =
     (let text = concat (map (render (baseIdentifier g) V clk c a) (emitted a section_order))
      in (text, Doer_write d' ''.Dockerfile'' text))"
proof -
  let ?b = "baseIdentifier g"
  obtain ev d1 where e1: "envVars g ?b d = (ev, d1)" by fastforce
  obtain repos d2 where e2: "aptRepos g ?b d1 = (repos, d2)" by fastforce
  obtain keys d3 where e3: "aptKeysCommand g ?b d2 = (keys, d3)" by fastforce
  obtain pkgs d4 where e4: "aptPackages g ?b d3 = (pkgs, d4)" by fastforce
  obtain boot d5 where e5: "stencilaInstall g ?b d4 = (boot, d5)" by fastforce
  obtain ifiles d6 where e6: "installFiles g ?b d5 = (ifiles, d6)" by fastforce
  obtain icmd d7 where e7: "installCommand g ?b d6 = (icmd, d7)" by fastforce
  obtain pfiles d8 where e8: "projectFiles g ?b d7 = (pfiles, d8)" by fastforce
  obtain rcmd d9 where e9: "runCommand g ?b d8 = (rcmd, d9)" by fastforce
  note es = e1 e2 e3 e4 e5 e6 e7 e8 e9
  have a: "a = \<lparr> ans_envVars = ev, ans_aptRepos = repos, ans_aptKeysCommand = keys,
             ans_aptPackages = pkgs, ans_stencilaInstall = boot, ans_installFiles = ifiles,
             ans_installCommand = icmd, ans_projectFiles = pfiles, ans_runCommand = rcmd \<rparr>"
    and d': "d' = d9"
    using assms(2) es by (simp_all add: invoke_def Let_def)
  show ?thesis
  proof (cases c)
    case True
    show ?thesis
      unfolding generate_def compose_unfold render_def env_pair_eq
      using assms(1) es
      by (simp add: Let_def if_app a d' True copy_lines_def split del: if_split cong: if_cong)
  next
    case False
    show ?thesis
      unfolding generate_def compose_unfold render_def env_pair_eq
      using assms(1) es
      by (simp add: Let_def if_app a d' False copy_lines_def split del: if_split cong: if_cong)
  qed
qed

lemma generate_not_applies:
  "\<not> applies g \<Longrightarrow>
   generate g V clk c d
     = ((if c then explain V clk BaseImage else '''') @ ''FROM '' @ baseIdentifier g @ nl, d)"
  by (cases c) (simp_all add: generate_def Let_def)

lemma split_on_line: "c \<notin> set l \<Longrightarrow> split_on c (l @ c # r) = l # split_on c r"
  by (induction l) (auto split: list.splits)


lemma comment_only_line:
  "CHR 0x0A \<notin> set l \<Longrightarrow>
   comment_only (l @ CHR 0x0A # r) = ((case l of [] \<Rightarrow> True | c # _ \<Rightarrow> c = CHR ''#'') \<and> comment_only r)"
  by (simp add: comment_only_def split_on_line)

lemma comment_only_Nil: "comment_only []"
  by (simp add: comment_only_def)

lemma explain_BaseImage_comment_only:
  assumes "CHR 0x0A \<notin> set V" and "CHR 0x0A \<notin> set (now_iso clk)"
  shows "comment_only (explain V clk BaseImage)"
proof -
  let ?l1 = "''# Generated by Dockter '' @ V @ '' at '' @ now_iso clk"
  let ?l2 = "''# To stop Dockter generating this file and start editing it yourself,''"
  let ?l3 = "''# rename it to '' @ dq @ ''Dockerfile'' @ dq @ ''.''"
  let ?l5 = "''# This tells Docker which base image to use.''"
  have "explain V clk BaseImage
      = ?l1 @ CHR 0x0A # (?l2 @ CHR 0x0A # (?l3 @ CHR 0x0A # ([] @ CHR 0x0A # (?l5 @ CHR 0x0A # []))))"
    by simp
  moreover have "comment_only (?l1 @ CHR 0x0A # (?l2 @ CHR 0x0A # (?l3 @ CHR 0x0A # ([] @ CHR 0x0A # (?l5 @ CHR 0x0A # [])))))"
    using assms
    apply (subst comment_only_line, simp)
    apply (subst comment_only_line, simp)
    apply (subst comment_only_line, simp)
    apply (subst comment_only_line, simp)
    apply (subst comment_only_line, simp)
    apply (simp add: comment_only_Nil)
    done
  ultimately show ?thesis by simp
qed

lemma generate_persists:
  assumes "applies g"
  shows "files (snd (generate g V clk c d)) ''.Dockerfile'' = Some (fst (generate g V clk c d))"
proof -
  obtain a d' where "invoke g d = (a, d')" by fastforce
  from generate_sections[OF assms this] show ?thesis
    by (simp add: Let_def Doer_write_def)
qed

text \<open>
  C2. When \<^verbatim>\<open>applies()\<close> answers false, composing without comments returns the
  base-image line and nothing else, whatever the other methods of the adapter would
  answer, and leaves the folder as it was; with comments it returns the same line after
  the explanatory text, which is made of comment lines only when the version and the
  timestamp hold no line feed. This is the only early return: when \<^verbatim>\<open>applies()\<close>
  answers true the composition runs to its last step, which stores the returned text as
  \<^verbatim>\<open>.Dockerfile\<close>.
\<close>
theorem generate_early_return:
  "(\<not> applies g \<longrightarrow>
      generate g V clk False d = (''FROM '' @ baseIdentifier g @ nl, d)
      \<and> generate g V clk True d = (explain V clk BaseImage @ ''FROM '' @ baseIdentifier g @ nl, d)
      \<and> (CHR 0x0A \<notin> set V \<and> CHR 0x0A \<notin> set (now_iso clk) \<longrightarrow> comment_only (explain V clk BaseImage)))
   \<and> (applies g \<longrightarrow>
      files (snd (generate g V clk c d)) ''.Dockerfile'' = Some (fst (generate g V clk c d)))"
  using generate_not_applies[of g V clk False d] generate_not_applies[of g V clk True d]
    explain_BaseImage_comment_only[of V clk] generate_persists[of g V clk c d]
  by simp

text \<open>The defaults of the generator do not apply; a generator that applies reaches the last step.\<close>
theorem generate_early_return_witness:
  "generate Generator_defaults ''0.1'' sample_clock False empty_folder = (''FROM ubuntu:18.04'' @ nl, empty_folder)
   \<and> comment_only (explain ''0.1'' sample_clock BaseImage)
   \<and> files (snd (generate applying_generator ''0.1'' sample_clock False empty_folder)) ''.Dockerfile''
       = Some (fst (generate applying_generator ''0.1'' sample_clock False empty_folder))"
  using generate_early_return[of Generator_defaults "''0.1''" sample_clock empty_folder False]
    generate_early_return[of applying_generator "''0.1''" sample_clock empty_folder False]
  by (simp add: Generator_defaults_def applying_generator_def baseIdentifier_def sample_clock_def)

lemma emitted_section_order:
  "emitted a section_order = emitted a root_steps @ [PrivilegeDrop] @ emitted a user_steps"
  by (simp add: emitted_def section_order_def)

text \<open>
  C3. When \<^verbatim>\<open>applies()\<close> is true, the composed text is the concatenation, in the
  order of the specification's list, of the sections whose content is not empty: the
  emitted steps that need root, then the privilege drop, which is always there, then the
  emitted steps of the non-root user. The answers are those the adapter gave when the
  composer asked, in the composer's order of asking, which is not the order of the
  sections.
\<close>
theorem generate_section_order:
  assumes "applies g"
  shows "fst (generate g V clk c d) =
      concat (map (render (baseIdentifier g) V clk c (fst (invoke g d))) (emitted (fst (invoke g d)) root_steps))
      @ render (baseIdentifier g) V clk c (fst (invoke g d)) PrivilegeDrop
      @ concat (map (render (baseIdentifier g) V clk c (fst (invoke g d))) (emitted (fst (invoke g d)) user_steps))"
proof -
  obtain a d' where a: "invoke g d = (a, d')" by fastforce
  from generate_sections[OF assms a] show ?thesis
    by (simp add: Let_def a emitted_section_order)
qed

text \<open>A generator with one environment variable and a run command.\<close>
theorem generate_section_order_witness:
  "fst (generate applying_generator ''0.1'' sample_clock False empty_folder) =
     ''FROM ubuntu:18.04'' @ nl
     @ nl @ ''ENV A='' @ dq @ ''b'' @ dq @ nl
     @ nl @ ''RUN useradd --create-home --uid 1001 -s /bin/bash dockteruser'' @ nl
     @ ''USER dockteruser'' @ nl
     @ ''WORKDIR /home/dockteruser'' @ nl
     @ nl @ ''CMD x'' @ nl"
  using generate_section_order[of applying_generator "''0.1''" sample_clock False empty_folder]
  by (simp add: applying_generator_def Generator_defaults_def baseIdentifier_def invoke_def
      emitted_def root_steps_def user_steps_def render_def truthy_def text_of_def env_pair_def)

section \<open>Escaping of environment values\<close>

text \<open>
  C4. The code escapes the first double quote of a value and no other: the variable
  \<^verbatim>\<open>A\<close> with the value \<^verbatim>\<open>a"b"c\<close> is composed as \<^verbatim>\<open>ENV A="a\"b"c"\<close>, where the first
  double quote has got a backslash and the second is left as it was.
\<close>
theorem env_value_second_quote_unescaped:
  "fst (generate quoting_generator ''0.1'' sample_clock False empty_folder) =
     ''FROM ubuntu:18.04'' @ nl
     @ nl @ ''ENV A='' @ dq @ ''a'' @ bs @ dq @ ''b'' @ dq @ ''c'' @ dq @ nl
     @ nl @ ''RUN useradd --create-home --uid 1001 -s /bin/bash dockteruser'' @ nl
     @ ''USER dockteruser'' @ nl
     @ ''WORKDIR /home/dockteruser'' @ nl"
  by (simp add: generate_def quoting_generator_def Generator_defaults_def baseIdentifier_def
      truthy_def Let_def)

text \<open>The statement that the composed text holds, with its second double quote bare.\<close>

theorem env_value_second_quote_unescaped_witness:
  "\<exists>pre post. fst (generate quoting_generator ''0.1'' sample_clock False empty_folder)
     = pre @ ''ENV A='' @ dq @ ''a'' @ bs @ dq @ ''b'' @ dq @ ''c'' @ dq @ nl @ post"
proof -
  have "fst (generate quoting_generator ''0.1'' sample_clock False empty_folder)
     = (''FROM ubuntu:18.04'' @ nl @ nl)
       @ ''ENV A='' @ dq @ ''a'' @ bs @ dq @ ''b'' @ dq @ ''c'' @ dq @ nl
       @ (nl @ ''RUN useradd --create-home --uid 1001 -s /bin/bash dockteruser'' @ nl
          @ ''USER dockteruser'' @ nl
          @ ''WORKDIR /home/dockteruser'' @ nl)"
    using env_value_second_quote_unescaped by simp
  then show ?thesis by blast
qed

section \<open>The run command of the R generator\<close>

text \<open>
  C7. \<^verbatim>\<open>runCommand\<close> of the R generator answers nothing when the listing of
  \<^verbatim>\<open>*.R\<close> files is empty, \<^verbatim>\<open>Rscript main.R\<close> when \<^verbatim>\<open>main.R\<close> is listed, else
  \<^verbatim>\<open>Rscript cmd.R\<close> when \<^verbatim>\<open>cmd.R\<close> is listed, else \<^verbatim>\<open>Rscript\<close> with the first
  file of the listing.
\<close>
theorem runCommand_choice:
  "RGenerator_runCommand doer =
     (if Doer_glob doer ''**/*.R'' = [] then None
      else if ''main.R'' \<in> set (Doer_glob doer ''**/*.R'') then Some ''Rscript main.R''
      else if ''cmd.R'' \<in> set (Doer_glob doer ''**/*.R'') then Some ''Rscript cmd.R''
      else Some (''Rscript '' @ hd (Doer_glob doer ''**/*.R'')))"
  by (cases "Doer_glob doer ''**/*.R''") (simp_all add: RGenerator_runCommand_def Let_def)

text \<open>The four cases at concrete listings.\<close>
theorem runCommand_choice_witness:
  "RGenerator_runCommand (listing_folder [''a.R'', ''cmd.R'', ''main.R'']) = Some ''Rscript main.R''
   \<and> RGenerator_runCommand (listing_folder [''a.R'', ''cmd.R'']) = Some ''Rscript cmd.R''
   \<and> RGenerator_runCommand (listing_folder [''b.R'', ''a.R'']) = Some ''Rscript b.R''
   \<and> RGenerator_runCommand (listing_folder []) = None"
  using runCommand_choice[of "listing_folder [''a.R'', ''cmd.R'', ''main.R'']"]
    runCommand_choice[of "listing_folder [''a.R'', ''cmd.R'']"]
    runCommand_choice[of "listing_folder [''b.R'', ''a.R'']"]
    runCommand_choice[of "listing_folder []"]
  by (simp add: listing_folder_def Doer_glob_def)

section \<open>The install files of the R generator\<close>

text \<open>
  C8. \<^verbatim>\<open>installFiles\<close> of the R generator: when \<^verbatim>\<open>install.R\<close> exists it alone is
  copied, whether or not a \<^verbatim>\<open>DESCRIPTION\<close> exists, and nothing is written; otherwise,
  when \<^verbatim>\<open>DESCRIPTION\<close> exists, it is copied and nothing is written; otherwise a
  descriptor made from the environment's name, the date and the names of the R
  packages is written to \<^verbatim>\<open>.DESCRIPTION\<close> and copied into the image as
  \<^verbatim>\<open>DESCRIPTION\<close>.
\<close>
theorem installFiles_precedence:
  "(Doer_exists doer ''install.R'' \<longrightarrow>
      RGenerator_installFiles environ date filterPackages clock sysVersion doer
        = ([(''install.R'', ''install.R'')], doer))
   \<and> (\<not> Doer_exists doer ''install.R'' \<and> Doer_exists doer ''DESCRIPTION'' \<longrightarrow>
      RGenerator_installFiles environ date filterPackages clock sysVersion doer
        = ([(''DESCRIPTION'', ''DESCRIPTION'')], doer))
   \<and> (\<not> Doer_exists doer ''install.R'' \<and> \<not> Doer_exists doer ''DESCRIPTION'' \<longrightarrow>
      RGenerator_installFiles environ date filterPackages clock sysVersion doer
        = ([(''.DESCRIPTION'', ''DESCRIPTION'')],
           Doer_write doer ''.DESCRIPTION''
             (''Package: ''
              @ replace_first (\<lambda>c. \<not> is_alnum c) '''' (or_else (environ_name environ) ''unnamed'') @ nl
              @ ''Version: 1.0.0'' @ nl
              @ ''Date: '' @ date @ nl
              @ ''Imports:'' @ nl @ ''  ''
              @ join ('','' @ nl @ ''  '') (map recorded_name (filterPackages ''R'')) @ nl
              @ ''Description: Generated by Dockter '' @ now_iso clock @ ''.'' @ nl
              @ ''  To stop Dockter generating this file and start editing it yourself, rename it to ''
              @ dq @ ''DESCRIPTION'' @ dq @ ''.'' @ nl)))"
proof -
  have "recorded_name = (\<lambda>d. case name d of None \<Rightarrow> '''' | Some s \<Rightarrow> s)"
    by (auto simp: fun_eq_iff recorded_name_def)
  then show ?thesis
    by (simp add: RGenerator_installFiles_def Let_def comp_def)
qed

text \<open>A folder with both user files, a folder with a descriptor only, and an empty folder.\<close>
theorem installFiles_precedence_witness:
  "RGenerator_installFiles sample_environ ''2018-10-05'' sample_packages sample_clock ''ubuntu:16.04''
       (folder_with [''install.R'', ''DESCRIPTION''])
     = ([(''install.R'', ''install.R'')], folder_with [''install.R'', ''DESCRIPTION''])
   \<and> RGenerator_installFiles sample_environ ''2018-10-05'' sample_packages sample_clock ''ubuntu:16.04''
       (folder_with [''DESCRIPTION''])
     = ([(''DESCRIPTION'', ''DESCRIPTION'')], folder_with [''DESCRIPTION''])
   \<and> RGenerator_installFiles sample_environ ''2018-10-05'' sample_packages sample_clock ''ubuntu:16.04''
       empty_folder
     = ([(''.DESCRIPTION'', ''DESCRIPTION'')],
        Doer_write empty_folder ''.DESCRIPTION''
          (''Package: myproj'' @ nl
           @ ''Version: 1.0.0'' @ nl
           @ ''Date: 2018-10-05'' @ nl
           @ ''Imports:'' @ nl
           @ ''  ggplot2'' @ nl
           @ ''Description: Generated by Dockter 2018-10-06T01:02:03.000Z.'' @ nl
           @ ''  To stop Dockter generating this file and start editing it yourself, rename it to ''
           @ dq @ ''DESCRIPTION'' @ dq @ ''.'' @ nl))"
  using installFiles_precedence[of "folder_with [''install.R'', ''DESCRIPTION'']" sample_environ
      "''2018-10-05''" sample_packages sample_clock "''ubuntu:16.04''"]
    installFiles_precedence[of "folder_with [''DESCRIPTION'']" sample_environ
      "''2018-10-05''" sample_packages sample_clock "''ubuntu:16.04''"]
    installFiles_precedence[of empty_folder sample_environ
      "''2018-10-05''" sample_packages sample_clock "''ubuntu:16.04''"]
  by (simp add: folder_with_def empty_folder_def Doer_exists_def sample_environ_def sample_packages_def
      top_level_def sample_clock_def recorded_name_def is_alnum_def)

section \<open>Native packages at the top level\<close>

lemma find_pkg_deb: "runtimePlatform p = Some ''deb'' \<Longrightarrow> find_pkg p debpkgs = debpkgs"
  by (cases p) (simp add: find_pkg_walk)

text \<open>
  C10, as stated, fails: a \<^verbatim>\<open>deb\<close>-tagged package at the top level whose name is
  also the name of a \<^verbatim>\<open>deb\<close>-tagged child of an \<^verbatim>\<open>R\<close>-tagged package has its name
  in \<^verbatim>\<open>aptPackages\<close>.
\<close>
theorem top_level_deb_name_present:
  "libcurl \<in> set (top_level shared_name_environ)
   \<and> runtimePlatform libcurl = Some ''deb''
   \<and> recorded_name libcurl \<in> set (RGenerator_aptPackages shared_name_environ)"
  by (simp add: shared_name_environ_def libcurl_def top_level_def recorded_name_def
      RGenerator_aptPackages_def)

text \<open>
  C10, amended. The walk records nothing for a \<^verbatim>\<open>deb\<close>-tagged package at the top
  level: \<^verbatim>\<open>find\<close> leaves the list as it is, and \<^verbatim>\<open>aptPackages\<close> is the same as if
  the package were not among the top-level requirements. Its name is in the result only
  when something else puts it there.
\<close>
theorem top_level_deb_not_recorded:
  assumes "runtimePlatform p = Some ''deb''"
  shows "find_pkg p debpkgs = debpkgs
    \<and> RGenerator_aptPackages (environ\<lparr>environ_softwareRequirements := Some (before @ p # after)\<rparr>)
      = RGenerator_aptPackages (environ\<lparr>environ_softwareRequirements := Some (before @ after)\<rparr>)"
  using assms find_pkg_deb[OF assms]
  by (simp add: RGenerator_aptPackages_def)

text \<open>An environment whose only requirement is a native package.\<close>
theorem top_level_deb_not_recorded_witness:
  "find_pkg libcurl [''x''] = [''x'']
   \<and> RGenerator_aptPackages
        (shared_name_environ\<lparr>environ_softwareRequirements := Some ([] @ libcurl # [])\<rparr>)
      = [''r-base'']"
  using top_level_deb_not_recorded[where p = libcurl and debpkgs = "[''x'']"
      and environ = shared_name_environ and before = "[]" and after = "[]"]
  by (simp add: libcurl_def RGenerator_aptPackages_def)

section \<open>One composition by the R generator\<close>

lemma Doer_exists_write [simp]:
  "Doer_exists (Doer_write doer p content) q = (q = p \<or> Doer_exists doer q)"
  by (auto simp: Doer_exists_def Doer_write_def)

lemma Doer_glob_write [simp]: "Doer_glob (Doer_write doer p content) pattern = Doer_glob doer pattern"
  by (simp add: Doer_glob_def Doer_write_def)

lemma installFiles_fst:
  "fst (RGenerator_installFiles environ date fp clock sys doer) =
     (if Doer_exists doer ''install.R'' then [(''install.R'', ''install.R'')]
      else if Doer_exists doer ''DESCRIPTION'' then [(''DESCRIPTION'', ''DESCRIPTION'')]
      else [(''.DESCRIPTION'', ''DESCRIPTION'')])"
  by (simp add: RGenerator_installFiles_def Let_def)

lemma installFiles_exists:
  "Doer_exists (snd (RGenerator_installFiles environ date fp clock sys doer)) q =
     (Doer_exists doer q
      \<or> (q = ''.DESCRIPTION'' \<and> \<not> Doer_exists doer ''install.R'' \<and> \<not> Doer_exists doer ''DESCRIPTION''))"
  by (auto simp: RGenerator_installFiles_def Let_def)

lemma installFiles_glob:
  "Doer_glob (snd (RGenerator_installFiles environ date fp clock sys doer)) pattern = Doer_glob doer pattern"
  by (simp add: RGenerator_installFiles_def Let_def)

lemma installCommand_after_installFiles:
  "RGenerator_installCommand sys' (snd (RGenerator_installFiles environ date fp clock sys doer)) =
     Some (''mkdir ~/R'' @
       (if Doer_exists doer ''install.R'' then '' '' @ bs @ nl @ '' && Rscript install.R''
        else '' '' @ bs @ nl @ '' && bash -c '' @ dq
          @ ''Rscript <(curl -sL https://unpkg.com/@stencila/dockter/src/install.R)'' @ dq))"
  by (auto simp: RGenerator_installCommand_def installFiles_exists Let_def)

lemma RGenerator_applies: "applies (RGenerator environ clock ap fp clock') = ap"
  by (simp add: RGenerator_def Generator_defaults_def Let_def)

lemma RGenerator_baseIdentifier: "baseIdentifier (RGenerator environ clock ap fp clock') = ''ubuntu:16.04''"
  by (simp add: RGenerator_def Generator_defaults_def Let_def baseIdentifier_def)

lemma RGenerator_invoke:
  "invoke (RGenerator environ clock ap fp clock') doer =
     (RGenerator_answers environ (RGenerator_date environ clock) doer,
      snd (RGenerator_installFiles environ (RGenerator_date environ clock) fp clock' ''ubuntu:16.04'' doer))"
proof -
  let ?d = "snd (RGenerator_installFiles environ (RGenerator_date environ clock) fp clock' ''ubuntu:16.04'' doer)"
  have p: "RGenerator_projectFiles ?d = RGenerator_projectFiles doer"
    and r: "RGenerator_runCommand ?d = RGenerator_runCommand doer"
    by (simp_all add: RGenerator_projectFiles_def RGenerator_runCommand_def installFiles_glob)
  show ?thesis
    unfolding invoke_def RGenerator_baseIdentifier RGenerator_answers_def
    by (simp add: RGenerator_def Generator_defaults_def Let_def split_beta
        installFiles_fst installCommand_after_installFiles p r)
qed

lemma RGenerator_answers_after:
  "RGenerator_answers environ date
      (Doer_write (snd (RGenerator_installFiles environ' date' fp clock sys doer)) ''.Dockerfile'' text)
   = RGenerator_answers environ date doer"
  by (simp add: RGenerator_answers_def installFiles_exists installFiles_glob
      RGenerator_projectFiles_def RGenerator_runCommand_def)

lemma RGenerator_generate:
  "fst (generate (RGenerator environ clock ap fp clock') V clk c doer) =
     (if ap
      then concat (map (render ''ubuntu:16.04'' V clk c (RGenerator_answers environ (RGenerator_date environ clock) doer))
             (emitted (RGenerator_answers environ (RGenerator_date environ clock) doer) section_order))
      else render ''ubuntu:16.04'' V clk c (RGenerator_answers environ (RGenerator_date environ clock) doer) BaseImage)"
proof (cases ap)
  case True
  then have "applies (RGenerator environ clock ap fp clock')" by (simp add: RGenerator_applies)
  from generate_sections[OF this RGenerator_invoke] True show ?thesis
    by (simp add: Let_def RGenerator_baseIdentifier)
next
  case False
  then have "\<not> applies (RGenerator environ clock ap fp clock')" by (simp add: RGenerator_applies)
  from generate_not_applies[OF this] False show ?thesis
    by (simp add: RGenerator_baseIdentifier render_def)
qed

lemma RGenerator_generate_snd:
  "snd (generate (RGenerator environ clock ap fp clock') V clk c doer) =
     (if ap
      then Doer_write (snd (RGenerator_installFiles environ (RGenerator_date environ clock) fp clock' ''ubuntu:16.04'' doer))
             ''.Dockerfile'' (fst (generate (RGenerator environ clock ap fp clock') V clk c doer))
      else doer)"
proof (cases ap)
  case True
  then have "applies (RGenerator environ clock ap fp clock')" by (simp add: RGenerator_applies)
  from generate_sections[OF this RGenerator_invoke] True show ?thesis
    by (simp add: Let_def)
next
  case False
  then have "\<not> applies (RGenerator environ clock ap fp clock')" by (simp add: RGenerator_applies)
  from generate_not_applies[OF this] False show ?thesis
    by simp
qed

lemma generate_no_comments: "fst (generate g V clk False d) = fst (generate g V' clk' False d)"
  by (simp add: generate_def)

lemma render_instruction: "render b V clk False a = instruction b a"
  by (simp add: fun_eq_iff render_def)

lemma RGenerator_generate_eq:
  assumes "RGenerator_date environ clock1 = RGenerator_date environ clock2"
  shows "fst (generate (RGenerator environ clock1 ap fp clock1') V1 clk1 False doer)
       = fst (generate (RGenerator environ clock2 ap fp clock2') V2 clk2 False doer)"
  using assms by (simp add: RGenerator_generate render_instruction)

lemma RGenerator_generate_again:
  "fst (generate (RGenerator environ clock ap fp clock') V clk c
          (snd (generate (RGenerator environ clock ap fp clock') V' clk' c' doer)))
   = fst (generate (RGenerator environ clock ap fp clock') V clk c doer)"
  by (simp add: RGenerator_generate RGenerator_generate_snd RGenerator_answers_after)

text \<open>
  C5, amended. Without comments the composed text does not depend on the version nor on
  the clock the composer reads, for any adapter. Two R generators of one environment
  compose the same text provided the environment has a date of publication or
  yesterday's date was the same at both constructions; the timestamp written into the
  descriptor never reaches the text. Composing again with one R generator, in the folder
  the first composition left, gives the same text.
\<close>
theorem generate_repeatable:
  "fst (generate g V1 clk1 False doer) = fst (generate g V2 clk2 False doer)
   \<and> (truthy (datePublished environ) \<or> take 10 (yesterday_iso clock1) = take 10 (yesterday_iso clock2) \<longrightarrow>
        fst (generate (RGenerator environ clock1 ap fp clock1') V1 clk1 False doer)
        = fst (generate (RGenerator environ clock2 ap fp clock2') V2 clk2 False doer))
   \<and> fst (generate (RGenerator environ clock1 ap fp clock1') V2 clk2 False
             (snd (generate (RGenerator environ clock1 ap fp clock1') V1 clk1 False doer)))
     = fst (generate (RGenerator environ clock1 ap fp clock1') V1 clk1 False doer)"
proof (intro conjI impI)
  show "fst (generate g V1 clk1 False doer) = fst (generate g V2 clk2 False doer)"
    by (rule generate_no_comments)
next
  assume "truthy (datePublished environ) \<or> take 10 (yesterday_iso clock1) = take 10 (yesterday_iso clock2)"
  then have "RGenerator_date environ clock1 = RGenerator_date environ clock2"
    by (auto simp: RGenerator_date_def Let_def)
  then show "fst (generate (RGenerator environ clock1 ap fp clock1') V1 clk1 False doer)
        = fst (generate (RGenerator environ clock2 ap fp clock2') V2 clk2 False doer)"
    by (rule RGenerator_generate_eq)
next
  show "fst (generate (RGenerator environ clock1 ap fp clock1') V2 clk2 False
             (snd (generate (RGenerator environ clock1 ap fp clock1') V1 clk1 False doer)))
     = fst (generate (RGenerator environ clock1 ap fp clock1') V1 clk1 False doer)"
    using RGenerator_generate_again[of environ clock1 ap fp clock1' V2 clk2 False V1 clk1 False doer]
      generate_no_comments[of "RGenerator environ clock1 ap fp clock1'" V2 clk2 doer V1 clk1]
    by simp
qed

text \<open>An environment with a date of publication, composed on two different days.\<close>
theorem generate_repeatable_witness:
  "fst (generate (RGenerator dated_environ sample_clock True no_packages sample_clock) ''0.1'' sample_clock False empty_folder)
   = fst (generate (RGenerator dated_environ later_clock True no_packages later_clock) ''0.2'' later_clock False empty_folder)"
  using generate_repeatable[of Generator_defaults "''0.1''" sample_clock empty_folder "''0.2''" later_clock
      dated_environ sample_clock later_clock True no_packages sample_clock later_clock]
  by (simp add: dated_environ_def truthy_def)

text \<open>
  C5, as stated, fails for an environment without a date of publication: two R
  generators of the same environment, constructed on two different days, compose
  different texts without comments, since the repository line carries yesterday's date.
\<close>
theorem generate_fallback_date_differs:
  "fst (generate (RGenerator undated_environ sample_clock True no_packages sample_clock) ''0.1'' sample_clock False empty_folder)
   \<noteq> fst (generate (RGenerator undated_environ later_clock True no_packages later_clock) ''0.1'' later_clock False empty_folder)"
  by (simp add: RGenerator_generate compose_unfold render_def RGenerator_answers_def
      RGenerator_date_def undated_environ_def truthy_def sample_clock_def later_clock_def
      RGenerator_aptRepos_def RGenerator_envVars_def env_pair_def)

text \<open>
  C9. \<^verbatim>\<open>installCommand\<close> of the R generator always answers a command that begins
  with \<^verbatim>\<open>mkdir ~/R\<close>, whatever the folder holds, so the answer counts as present; when
  the R generator applies, the managed-install marker and the install command are among
  the emitted sections, and the composed text holds the marker line and, after it, a
  \<^verbatim>\<open>RUN\<close> line that begins with that command.
\<close>
theorem installCommand_never_absent:
  "(\<exists>rest. RGenerator_installCommand sysVersion doer = Some (''mkdir ~/R'' @ rest))
   \<and> truthy (RGenerator_installCommand sysVersion doer)
   \<and> ManagedInstallMarker \<in> set (emitted (fst (invoke (RGenerator environ clock True fp clock') doer)) section_order)
   \<and> InstallCommand \<in> set (emitted (fst (invoke (RGenerator environ clock True fp clock') doer)) section_order)
   \<and> (\<exists>pre mid post.
        fst (generate (RGenerator environ clock True fp clock') V clk c doer)
          = pre @ nl @ ''# dockter'' @ nl @ mid @ nl @ ''RUN mkdir ~/R'' @ post)"
proof (intro conjI)
  show "\<exists>rest. RGenerator_installCommand sysVersion doer = Some (''mkdir ~/R'' @ rest)"
    by (simp add: RGenerator_installCommand_def Let_def)
  show "truthy (RGenerator_installCommand sysVersion doer)"
    by (simp add: RGenerator_installCommand_def Let_def truthy_def)
next
  let ?a = "RGenerator_answers environ (RGenerator_date environ clock) doer"
  let ?r = "render ''ubuntu:16.04'' V clk c ?a"
  obtain suffix where icmd: "ans_installCommand ?a = Some (''mkdir ~/R'' @ suffix)"
    by (simp add: RGenerator_answers_def)
  have pm: "present ?a ManagedInstallMarker" "present ?a InstallCommand"
    using icmd by (simp_all add: truthy_def)
  then show "ManagedInstallMarker \<in> set (emitted (fst (invoke (RGenerator environ clock True fp clock') doer)) section_order)"
    and "InstallCommand \<in> set (emitted (fst (invoke (RGenerator environ clock True fp clock') doer)) section_order)"
    by (simp_all add: RGenerator_invoke emitted_def section_order_def root_steps_def user_steps_def)
  let ?pre = "?r BaseImage
     @ (if present ?a Environment then ?r Environment else [])
     @ (if present ?a RepositoryBootstrap then ?r RepositoryBootstrap else [])
     @ (if present ?a RepositoryAdd then ?r RepositoryAdd else [])
     @ (if present ?a KeyRegistration then ?r KeyRegistration else [])
     @ (if present ?a SystemPackages then ?r SystemPackages else [])
     @ (if present ?a EcosystemBootstrap then ?r EcosystemBootstrap else [])
     @ ?r PrivilegeDrop
     @ (if c then explain V clk ManagedInstallMarker else [])"
  let ?mid = "(if present ?a InstallFileStaging then ?r InstallFileStaging else [])
     @ (if c then explain V clk InstallCommand else [])"
  let ?post = "suffix @ nl
     @ (if present ?a ProjectFileStaging then ?r ProjectFileStaging else [])
     @ (if present ?a RunCommand then ?r RunCommand else [])"
  have m: "?r ManagedInstallMarker = (if c then explain V clk ManagedInstallMarker else []) @ nl @ ''# dockter'' @ nl"
    by (simp add: render_def)
  have i: "?r InstallCommand = (if c then explain V clk InstallCommand else []) @ nl @ ''RUN mkdir ~/R'' @ suffix @ nl"
    by (simp add: render_def icmd text_of_def)
  have "fst (generate (RGenerator environ clock True fp clock') V clk c doer)
      = ?pre @ nl @ ''# dockter'' @ nl @ ?mid @ nl @ ''RUN mkdir ~/R'' @ ?post"
    unfolding RGenerator_generate compose_unfold
    by (simp only: pm m i if_True append_assoc)
  then show "\<exists>pre mid post.
        fst (generate (RGenerator environ clock True fp clock') V clk c doer)
          = pre @ nl @ ''# dockter'' @ nl @ mid @ nl @ ''RUN mkdir ~/R'' @ post"
    by blast
qed

text \<open>The empty folder: no install script and no descriptor.\<close>
theorem installCommand_never_absent_witness:
  "RGenerator_installCommand ''ubuntu:16.04'' empty_folder = Some ''mkdir ~/R''
   \<and> InstallCommand \<in> set (emitted (fst (invoke (RGenerator undated_environ sample_clock True no_packages sample_clock) empty_folder)) section_order)"
  using installCommand_never_absent[of "''ubuntu:16.04''" empty_folder undated_environ sample_clock
      no_packages sample_clock "''0.1''" sample_clock False]
  by (simp add: RGenerator_installCommand_def Let_def empty_folder_def Doer_exists_def)

section \<open>The codename of the base version\<close>







end
